theory Spec2Isabelle
  imports Main "HOL-Library.Sublist"
begin

section \<open>Data model\<close>

text \<open>
  An element of \<^verbatim>\<open>ec2_resource.vpc_addresses.all()\<close>: the handler reads the attributes
  \<^verbatim>\<open>public_ip\<close>, \<^verbatim>\<open>allocation_id\<close> and \<^verbatim>\<open>instance_id\<close>; the last one is
  \<^verbatim>\<open>None\<close> when the address is bound to no instance.
\<close>

record vpc_address =
  public_ip :: string
  allocation_id :: string
  instance_id :: "string option"

text \<open>
  A raised Python exception, as far as the handler can tell exceptions apart: whether its
  class derives from \<^verbatim>\<open>Exception\<close> (the class the \<^verbatim>\<open>except\<close> clause names; an
  exception deriving from \<^verbatim>\<open>BaseException\<close> only, such as \<^verbatim>\<open>KeyboardInterrupt\<close> or
  \<^verbatim>\<open>SystemExit\<close>, does not), and what \<^verbatim>\<open>str(e)\<close> gives, which the error line prints.
\<close>

datatype exc = Exc (is_Exception: bool) (str_of: string)

text \<open>The mapping the handler returns.\<close>

record response =
  statusCode :: int
  body :: string

text \<open>
  The EC2 resource the handler obtains from \<^verbatim>\<open>boto3.resource('ec2')\<close>, over a state
  \<open>'w\<close> of the remote service. Iterating \<^verbatim>\<open>vpc_addresses.all()\<close> yields a finite
  sequence of addresses and then either ends (\<open>None\<close>) or raises (\<open>Some e\<close>).
  \<^verbatim>\<open>elastic_ip.release()\<close> either returns (\<open>None\<close>) or raises (\<open>Some e\<close>), and leaves
  the service in a new state.
\<close>

record 'w ec2 =
  vpc_addresses_all :: "'w \<Rightarrow> vpc_address list \<times> exc option"
  release :: "vpc_address \<Rightarrow> 'w \<Rightarrow> exc option \<times> 'w"

text \<open>
  What the handler does to the outside, one event for each effect: a line printed, or a call
  of \<^verbatim>\<open>release()\<close> on an address with the way it ended.
\<close>

datatype event = Printed string | Release_call vpc_address "exc option"

text \<open>
  The variables of one invocation: the counter, the lines printed so far, and the state of
  the remote service. \<open>release_calls\<close> records every call of \<^verbatim>\<open>release()\<close> made so
  far, with the address it was made on and how it ended; \<open>events\<close> records the prints and
  the release calls together, in the order in which the program performs them.
\<close>

record 'w frame =
  released_count :: int
  stdout :: "string list"
  release_calls :: "(vpc_address \<times> exc option) list"
  events :: "event list"
  world :: 'w

section \<open>Formatting\<close>

definition digit_char :: "nat \<Rightarrow> char" where
  "digit_char d = ''0123456789'' ! d"

fun str_nat :: "nat \<Rightarrow> string" where
  "str_nat n = (if n < 10 then [digit_char n] else str_nat (n div 10) @ [digit_char (n mod 10)])"

declare str_nat.simps [simp del]

text \<open>Python's \<^verbatim>\<open>str\<close> of an integer, as an f-string renders it.\<close>

definition str_int :: "int \<Rightarrow> string" where
  "str_int i = (if i < 0 then CHR ''-'' # str_nat (nat (- i)) else str_nat (nat i))"

text \<open>The number that a string of decimal digits spells, read from the left with \<open>acc\<close> as
  the value read so far.\<close>

fun digits_value :: "nat \<Rightarrow> string \<Rightarrow> nat" where
  "digits_value acc [] = acc"
| "digits_value acc (ch # s) = digits_value (10 * acc + (of_char ch - 48)) s"

text \<open>\<^verbatim>\<open>f"Releasing unassociated EIP: {elastic_ip.public_ip} ({elastic_ip.allocation_id})"\<close>\<close>

definition releasing_line :: "vpc_address \<Rightarrow> string" where
  "releasing_line eip =
     ''Releasing unassociated EIP: '' @ public_ip eip @ '' ('' @ allocation_id eip @ '')''"

text \<open>\<^verbatim>\<open>f"Error releasing EIP {elastic_ip.allocation_id}: {e}"\<close>\<close>

definition error_line :: "vpc_address \<Rightarrow> exc \<Rightarrow> string" where
  "error_line eip e = ''Error releasing EIP '' @ allocation_id eip @ '': '' @ str_of e"

text \<open>\<^verbatim>\<open>f'Released {released_count} unassociated EIP(s).'\<close>\<close>

definition released_body :: "int \<Rightarrow> string" where
  "released_body n = ''Released '' @ str_int n @ '' unassociated EIP(s).''"

section \<open>The handler\<close>

text \<open>
  The body of the \<^verbatim>\<open>for\<close> loop over the addresses the iteration yields. The result is
  the exception that left the loop, if one did, and the variables at that point. An
  exception of \<^verbatim>\<open>release()\<close> whose class derives from \<^verbatim>\<open>Exception\<close> is handled by
  printing the error line; any other exception leaves the loop.
\<close>

fun for_loop :: "'w ec2 \<Rightarrow> vpc_address list \<Rightarrow> 'w frame \<Rightarrow> exc option \<times> 'w frame" where
  "for_loop ec2_resource [] s = (None, s)"
| "for_loop ec2_resource (elastic_ip # rest) s =
     (if instance_id elastic_ip = None then
        (let s1 = s\<lparr>stdout := stdout s @ [releasing_line elastic_ip],
                      events := events s @ [Printed (releasing_line elastic_ip)]\<rparr>;
             (r, w') = release ec2_resource elastic_ip (world s1);
             s2 = s1\<lparr>release_calls := release_calls s1 @ [(elastic_ip, r)],
                      events := events s1 @ [Release_call elastic_ip r],
                      world := w'\<rparr>
         in case r of
              None \<Rightarrow> for_loop ec2_resource rest (s2\<lparr>released_count := released_count s2 + 1\<rparr>)
            | Some e \<Rightarrow>
                if is_Exception e
                then for_loop ec2_resource rest
                       (s2\<lparr>stdout := stdout s2 @ [error_line elastic_ip e],
                           events := events s2 @ [Printed (error_line elastic_ip e)]\<rparr>)
                else (Some e, s2))
      else for_loop ec2_resource rest s)"

text \<open>The variables when the loop is entered: \<^verbatim>\<open>released_count = 0\<close>, nothing printed.\<close>

definition initial_frame :: "'w \<Rightarrow> 'w frame" where
  "initial_frame w =
     \<lparr>released_count = 0, stdout = [], release_calls = [], events = [], world = w\<rparr>"

text \<open>
  \<^verbatim>\<open>lambda_handler(event, context)\<close>, run against the resource \<open>ec2_resource\<close> in the
  service state \<open>w\<close>. The first component is \<open>Inr\<close> of the returned mapping, or \<open>Inl\<close>
  of the exception that propagates out of the invocation; the second holds what was
  printed, the release calls made and the service state left behind. The arguments
  \<open>event\<close> and \<open>context\<close> are not used.
\<close>

definition lambda_handler ::
  "'w ec2 \<Rightarrow> 'ev \<Rightarrow> 'ctx \<Rightarrow> 'w \<Rightarrow> (exc + response) \<times> 'w frame" where
  "lambda_handler ec2_resource event context w =
     (let (eips, stop) = vpc_addresses_all ec2_resource w;
          (raised, s) = for_loop ec2_resource eips (initial_frame w)
      in (case raised of
            Some e \<Rightarrow> Inl e
          | None \<Rightarrow>
              (case stop of
                 Some e \<Rightarrow> Inl e
               | None \<Rightarrow> Inr \<lparr>statusCode = 200, body = released_body (released_count s)\<rparr>),
          s))"

section \<open>Vocabulary of the properties\<close>

text \<open>The addresses of a sequence that are bound to no instance, in order.\<close>

definition unassociated :: "vpc_address list \<Rightarrow> vpc_address list" where
  "unassociated eips = filter (\<lambda>a. instance_id a = None) eips"

text \<open>The release calls of a trace that returned without raising.\<close>

definition completed :: "(vpc_address \<times> exc option) list \<Rightarrow> (vpc_address \<times> exc option) list" where
  "completed calls = filter (\<lambda>c. snd c = None) calls"

text \<open>What one release call puts on the log: the line printed before the call, and the error
  line when the call raised an exception that the handler catches.\<close>

fun call_log :: "vpc_address \<times> exc option \<Rightarrow> string list" where
  "call_log (a, None) = [releasing_line a]"
| "call_log (a, Some e) =
     (if is_Exception e then [releasing_line a, error_line a e] else [releasing_line a])"

text \<open>The events of one release call, in order: the line printed before the call, the call
  itself, and the error line when the call raised an exception that the handler catches.\<close>

fun call_events :: "vpc_address \<times> exc option \<Rightarrow> event list" where
  "call_events (a, None) = [Printed (releasing_line a), Release_call a None]"
| "call_events (a, Some e) =
     (if is_Exception e
      then [Printed (releasing_line a), Release_call a (Some e), Printed (error_line a e)]
      else [Printed (releasing_line a), Release_call a (Some e)])"

text \<open>The lines printed, among the events.\<close>

fun prints_of :: "event list \<Rightarrow> string list" where
  "prints_of [] = []"
| "prints_of (Printed l # evs) = l # prints_of evs"
| "prints_of (Release_call a r # evs) = prints_of evs"

text \<open>An outcome of a release call after which the loop goes on: the call returned, or it
  raised an exception that the handler catches.\<close>

fun handled :: "exc option \<Rightarrow> bool" where
  "handled None = True"
| "handled (Some e) = is_Exception e"

text \<open>A resource whose release calls raise nothing but exceptions deriving from
  \<^verbatim>\<open>Exception\<close>.\<close>

definition release_failures_only :: "'w ec2 \<Rightarrow> bool" where
  "release_failures_only ec2_resource \<longleftrightarrow>
     (\<forall>a w e. fst (release ec2_resource a w) = Some e \<longrightarrow> is_Exception e)"

text \<open>The variables after a release call on \<open>a\<close> that ended as \<open>r\<close> and left the service in
  state \<open>w'\<close>, when the loop goes on (or is left by an exception the handler does not catch).\<close>

definition after_call :: "'w frame \<Rightarrow> vpc_address \<Rightarrow> exc option \<Rightarrow> 'w \<Rightarrow> 'w frame" where
  "after_call s a r w' =
     s\<lparr>stdout := stdout s @ call_log (a, r),
       release_calls := release_calls s @ [(a, r)],
       events := events s @ call_events (a, r),
       world := w',
       released_count := (if r = None then released_count s + 1 else released_count s)\<rparr>"

text \<open>What the loop over \<open>eips\<close>, entered with the variables \<open>s\<close>, has added when it is left
  with \<open>res\<close>: the release calls \<open>new\<close>, their log lines, one count for each call that
  returned; the calls follow the unassociated addresses in order, all of them when the loop
  ran to its end.\<close>

definition loop_post ::
  "'w frame \<Rightarrow> vpc_address list \<Rightarrow> exc option \<times> 'w frame \<Rightarrow> (vpc_address \<times> exc option) list \<Rightarrow> bool" where
  "loop_post s eips res new \<longleftrightarrow>
     release_calls (snd res) = release_calls s @ new
   \<and> stdout (snd res) = stdout s @ concat (map call_log new)
   \<and> events (snd res) = events s @ concat (map call_events new)
   \<and> released_count (snd res) = released_count s + int (length (completed new))
   \<and> prefix (map fst new) (unassociated eips)
   \<and> (fst res = None \<longrightarrow>
        map fst new = unassociated eips \<and> (\<forall>call \<in> set new. handled (snd call)))
   \<and> (\<forall>e. fst res = Some e \<longrightarrow>
          \<not> is_Exception e \<and> new \<noteq> [] \<and> snd (last new) = Some e
        \<and> (\<forall>call \<in> set (butlast new). handled (snd call)))"

section \<open>Example runs\<close>

text \<open>A test double of the resource: the listing is fixed, and the release call on an
  address ends as \<open>outcome\<close> says. The service has no state of its own.\<close>

definition stub_ec2 :: "vpc_address list \<times> exc option \<Rightarrow> (vpc_address \<Rightarrow> exc option) \<Rightarrow> unit ec2" where
  "stub_ec2 listing outcome =
     \<lparr>vpc_addresses_all = (\<lambda>_. listing), release = (\<lambda>a w. (outcome a, w))\<rparr>"

definition eip_a :: vpc_address where
  "eip_a = \<lparr>public_ip = ''1.2.3.4'', allocation_id = ''eip-a'', instance_id = Some ''i-1''\<rparr>"

definition eip_b :: vpc_address where
  "eip_b = \<lparr>public_ip = ''5.6.7.8'', allocation_id = ''eip-b'', instance_id = None\<rparr>"

definition eip_c :: vpc_address where
  "eip_c = \<lparr>public_ip = ''9.9.9.3'', allocation_id = ''eip-c'', instance_id = None\<rparr>"

definition eip_d :: vpc_address where
  "eip_d = \<lparr>public_ip = ''9.9.9.4'', allocation_id = ''eip-d'', instance_id = None\<rparr>"

text \<open>Every release call returns.\<close>

definition all_succeed :: "vpc_address \<Rightarrow> exc option" where
  "all_succeed a = None"

text \<open>The release of \<^verbatim>\<open>eip-c\<close> raises an exception deriving from \<^verbatim>\<open>Exception\<close>.\<close>

definition c_fails :: "vpc_address \<Rightarrow> exc option" where
  "c_fails a = (if allocation_id a = ''eip-c'' then Some (Exc True ''AuthFailure'') else None)"

text \<open>The release of \<^verbatim>\<open>eip-c\<close> raises an exception that does not derive from
  \<^verbatim>\<open>Exception\<close>.\<close>

definition c_interrupted :: "vpc_address \<Rightarrow> exc option" where
  "c_interrupted a = (if allocation_id a = ''eip-c'' then Some (Exc False ''KeyboardInterrupt'') else None)"

text \<open>A provider error raised under throttling; its class derives from \<^verbatim>\<open>Exception\<close>.\<close>

definition throttled :: exc where
  "throttled = Exc True ''RequestLimitExceeded''"

section \<open>A remote address pool\<close>

text \<open>
  Modelled from the spec: the state of the external networking service, which is no part of
  this repository: the address allocations in scope (\<open>pool\<close>), and how the coming release
  calls end (\<open>faults\<close>: one entry for each call, \<open>None\<close> for a call that succeeds; calls
  beyond the list succeed).
\<close>

record pool_state =
  pool :: "vpc_address list"
  faults :: "exc option list"

text \<open>
  Modelled from the spec: the release operation of the external networking service. It takes
  an allocation and either fails with a provider error, leaving the pool as it is, or
  deallocates it: the allocation with that identifier is in the pool no longer.
\<close>

definition pool_release :: "vpc_address \<Rightarrow> pool_state \<Rightarrow> exc option \<times> pool_state" where
  "pool_release a w =
     (case faults w of
        [] \<Rightarrow>
          (None, \<lparr>pool = filter (\<lambda>b. allocation_id b \<noteq> allocation_id a) (pool w), faults = []\<rparr>)
      | None # later \<Rightarrow>
          (None, \<lparr>pool = filter (\<lambda>b. allocation_id b \<noteq> allocation_id a) (pool w), faults = later\<rparr>)
      | Some e # later \<Rightarrow> (Some e, \<lparr>pool = pool w, faults = later\<rparr>))"

text \<open>
  Modelled from the spec: the resource over such a pool. The enumeration returns every
  allocation in scope.
\<close>

definition pool_ec2 :: "pool_state ec2" where
  "pool_ec2 = \<lparr>vpc_addresses_all = (\<lambda>w. (pool w, None)), release = pool_release\<rparr>"

text \<open>An associated and an unassociated allocation; the next release call is throttled.\<close>

definition flaky_pool :: pool_state where
  "flaky_pool = \<lparr>pool = [eip_a, eip_c], faults = [Some throttled]\<rparr>"

text \<open>An associated and an unassociated allocation; release calls succeed.\<close>

definition calm_pool :: pool_state where
  "calm_pool = \<lparr>pool = [eip_a, eip_b], faults = []\<rparr>"

text \<open>No allocation that a release call of the run has deallocated is in the pool.\<close>

definition released_are_gone :: "pool_state frame \<Rightarrow> bool" where
  "released_are_gone s \<longleftrightarrow>
     (\<forall>call \<in> set (release_calls s).
        snd call = None \<longrightarrow> allocation_id (fst call) \<notin> allocation_id ` set (pool (world s)))"

section \<open>The loop, step by step\<close>

lemma for_loop_skip:
  "instance_id a \<noteq> None \<Longrightarrow> for_loop c (a # eips) s = for_loop c eips s"
  by auto

lemma for_loop_released:
  "instance_id a = None \<Longrightarrow> release c a (world s) = (None, w') \<Longrightarrow>
   for_loop c (a # eips) s = for_loop c eips (after_call s a None w')"
  by (simp add: after_call_def)

lemma for_loop_caught:
  "instance_id a = None \<Longrightarrow> release c a (world s) = (Some e, w') \<Longrightarrow> is_Exception e \<Longrightarrow>
   for_loop c (a # eips) s = for_loop c eips (after_call s a (Some e) w')"
  by (cases s) (simp add: after_call_def)

lemma for_loop_uncaught:
  "instance_id a = None \<Longrightarrow> release c a (world s) = (Some e, w') \<Longrightarrow> \<not> is_Exception e \<Longrightarrow>
   for_loop c (a # eips) s = (Some e, after_call s a (Some e) w')"
  by (cases s) (simp add: after_call_def)

lemma after_call_fields:
  "stdout (after_call s a r w') = stdout s @ call_log (a, r)"
  "release_calls (after_call s a r w') = release_calls s @ [(a, r)]"
  "world (after_call s a r w') = w'"
  "released_count (after_call s a r w') = (if r = None then released_count s + 1 else released_count s)"
  "events (after_call s a r w') = events s @ call_events (a, r)"
  by (simp_all add: after_call_def)

lemma loop_post_skip:
  "instance_id a \<noteq> None \<Longrightarrow> loop_post s eips res new \<Longrightarrow> loop_post s (a # eips) res new"
  by (auto simp add: loop_post_def unassociated_def)

lemma loop_post_step:
  assumes "instance_id a = None" and "loop_post (after_call s a r w') eips res new"
    and "case r of None \<Rightarrow> True | Some e \<Rightarrow> is_Exception e"
  shows "loop_post s (a # eips) res ((a, r) # new)"
  using assms
  by (simp add: loop_post_def after_call_fields unassociated_def completed_def split: option.splits)

lemma loop_post_stop:
  assumes "instance_id a = None" and "\<not> is_Exception e"
  shows "loop_post s (a # eips) (Some e, after_call s a (Some e) w') [(a, Some e)]"
  using assms
  by (simp add: loop_post_def after_call_fields unassociated_def completed_def)

lemma for_loop_post: "\<exists>new. loop_post s eips (for_loop c eips s) new"
proof (induction eips arbitrary: s)
  case Nil
  have "loop_post s [] (None, s) []"
    by (simp add: loop_post_def unassociated_def completed_def)
  then show ?case by auto
next
  case (Cons a eips)
  show ?case
  proof (cases "instance_id a = None")
    case False
    obtain new where "loop_post s eips (for_loop c eips s) new"
      using Cons.IH by blast
    with False have "loop_post s (a # eips) (for_loop c eips s) new"
      by (rule loop_post_skip)
    then show ?thesis
      unfolding for_loop_skip [OF False] by blast
  next
    case True
    obtain r w' where rel: "release c a (world s) = (r, w')"
      by (cases "release c a (world s)")
    show ?thesis
    proof (cases "case r of None \<Rightarrow> True | Some e \<Rightarrow> is_Exception e")
      case caught: True
      then have step: "for_loop c (a # eips) s = for_loop c eips (after_call s a r w')"
        using True rel for_loop_released [of a c s w' eips] for_loop_caught [of a c s _ w' eips]
        by (cases r) auto
      obtain new where "loop_post (after_call s a r w') eips (for_loop c eips (after_call s a r w')) new"
        using Cons.IH by blast
      then have "loop_post s (a # eips) (for_loop c (a # eips) s) ((a, r) # new)"
        unfolding step using True caught by (simp add: loop_post_step)
      then show ?thesis by blast
    next
      case False
      then obtain e where e: "r = Some e" "\<not> is_Exception e"
        by (cases r) auto
      have step: "for_loop c (a # eips) s = (Some e, after_call s a (Some e) w')"
        using True rel e for_loop_uncaught [of a c s e w' eips] by blast
      show ?thesis
        unfolding step by (rule exI, rule loop_post_stop [OF True e(2)])
    qed
  qed
qed

text \<open>When release calls raise nothing but exceptions deriving from \<^verbatim>\<open>Exception\<close>, no
  exception leaves the loop.\<close>

lemma for_loop_completes:
  assumes "release_failures_only c"
  shows "fst (for_loop c eips s) = None"
proof (induction eips arbitrary: s)
  case Nil
  show ?case by simp
next
  case (Cons a eips)
  show ?case
  proof (cases "instance_id a = None")
    case False
    show ?thesis
      unfolding for_loop_skip [OF False] by (rule Cons.IH)
  next
    case True
    obtain r w' where rel: "release c a (world s) = (r, w')"
      by (cases "release c a (world s)")
    show ?thesis
    proof (cases r)
      case None
      with True rel show ?thesis
        using Cons.IH for_loop_released [of a c s w' eips] by simp
    next
      case (Some e)
      have "is_Exception e"
        using assms rel Some unfolding release_failures_only_def
        by (metis fst_conv)
      with True rel Some show ?thesis
        using Cons.IH for_loop_caught [of a c s e w' eips] by simp
    qed
  qed
qed

section \<open>The handler in terms of its loop\<close>

lemma lambda_handler_unfold:
  "lambda_handler c ev ctx w =
     (case fst (for_loop c (fst (vpc_addresses_all c w)) (initial_frame w)) of
        Some e \<Rightarrow> Inl e
      | None \<Rightarrow>
          (case snd (vpc_addresses_all c w) of
             Some e \<Rightarrow> Inl e
           | None \<Rightarrow>
               Inr \<lparr>statusCode = 200,
                    body = released_body (released_count
                             (snd (for_loop c (fst (vpc_addresses_all c w)) (initial_frame w))))\<rparr>),
      snd (for_loop c (fst (vpc_addresses_all c w)) (initial_frame w)))"
  by (cases "vpc_addresses_all c w";
      cases "for_loop c (fst (vpc_addresses_all c w)) (initial_frame w)")
     (simp add: lambda_handler_def split: option.splits)

lemma snd_lambda_handler:
  "snd (lambda_handler c ev ctx w) = snd (for_loop c (fst (vpc_addresses_all c w)) (initial_frame w))"
  by (simp add: lambda_handler_unfold)

lemma handler_loop_post:
  "loop_post (initial_frame w) (fst (vpc_addresses_all c w))
     (for_loop c (fst (vpc_addresses_all c w)) (initial_frame w))
     (release_calls (snd (lambda_handler c ev ctx w)))"
proof -
  obtain new where
    new: "loop_post (initial_frame w) (fst (vpc_addresses_all c w))
            (for_loop c (fst (vpc_addresses_all c w)) (initial_frame w)) new"
    using for_loop_post by blast
  then have "release_calls (snd (lambda_handler c ev ctx w)) = new"
    by (simp add: loop_post_def snd_lambda_handler initial_frame_def)
  with new show ?thesis by simp
qed

lemma handler_stdout:
  "stdout (snd (lambda_handler c ev ctx w)) =
     concat (map call_log (release_calls (snd (lambda_handler c ev ctx w))))"
  using handler_loop_post [of w c ev ctx]
  by (simp add: loop_post_def snd_lambda_handler initial_frame_def)

lemma handler_count:
  "released_count (snd (lambda_handler c ev ctx w)) =
     int (length (completed (release_calls (snd (lambda_handler c ev ctx w)))))"
  using handler_loop_post [of w c ev ctx]
  by (simp add: loop_post_def snd_lambda_handler initial_frame_def)

lemma handler_calls_prefix:
  "prefix (map fst (release_calls (snd (lambda_handler c ev ctx w))))
     (unassociated (fst (vpc_addresses_all c w)))"
  using handler_loop_post [of w c ev ctx]
  by (simp add: loop_post_def)

lemma handler_calls_all:
  assumes "fst (for_loop c (fst (vpc_addresses_all c w)) (initial_frame w)) = None"
  shows "map fst (release_calls (snd (lambda_handler c ev ctx w))) =
           unassociated (fst (vpc_addresses_all c w))"
  using handler_loop_post [of w c ev ctx] assms
  by (simp add: loop_post_def)

lemma handler_returns:
  assumes "release_failures_only c" and "snd (vpc_addresses_all c w) = None"
  shows "fst (lambda_handler c ev ctx w) =
           Inr \<lparr>statusCode = 200,
                body = released_body (released_count (snd (lambda_handler c ev ctx w)))\<rparr>"
  using assms for_loop_completes [OF assms(1), of "fst (vpc_addresses_all c w)" "initial_frame w"]
  by (simp add: lambda_handler_unfold)

lemma handler_returned:
  assumes "fst (lambda_handler c ev ctx w) = Inr resp"
  shows "resp = \<lparr>statusCode = 200,
                  body = released_body (released_count (snd (lambda_handler c ev ctx w)))\<rparr>"
  using assms
  by (simp add: lambda_handler_unfold split: option.splits)

text \<open>The events of a run, and what they say about the lines printed and about a loop that
  an exception cut short.\<close>

lemma prints_of_append: "prints_of (xs @ ys) = prints_of xs @ prints_of ys"
  by (induction xs rule: prints_of.induct) simp_all

lemma prints_of_call_events: "prints_of (call_events call) = call_log call"
  by (cases call rule: call_events.cases) simp_all

lemma prints_of_calls:
  "prints_of (concat (map call_events calls)) = concat (map call_log calls)"
  by (induction calls) (simp_all add: prints_of_append prints_of_call_events)

lemma handler_events:
  "events (snd (lambda_handler c ev ctx w)) =
     concat (map call_events (release_calls (snd (lambda_handler c ev ctx w))))"
  using handler_loop_post [of w c ev ctx]
  by (simp add: loop_post_def snd_lambda_handler initial_frame_def)

lemma handler_all_handled:
  assumes "fst (for_loop c (fst (vpc_addresses_all c w)) (initial_frame w)) = None"
  shows "\<forall>call \<in> set (release_calls (snd (lambda_handler c ev ctx w))). handled (snd call)"
  using handler_loop_post [of w c ev ctx] assms
  by (simp add: loop_post_def)

lemma handler_cut_short:
  assumes "fst (for_loop c (fst (vpc_addresses_all c w)) (initial_frame w)) = Some e"
  shows "release_calls (snd (lambda_handler c ev ctx w)) \<noteq> []
       \<and> snd (last (release_calls (snd (lambda_handler c ev ctx w)))) = Some e
       \<and> (\<forall>call \<in> set (butlast (release_calls (snd (lambda_handler c ev ctx w)))).
             handled (snd call))"
  using handler_loop_post [of w c ev ctx] assms
  by (simp add: loop_post_def)

lemma handler_cut_short_uncaught:
  assumes "fst (for_loop c (fst (vpc_addresses_all c w)) (initial_frame w)) = Some e"
  shows "\<not> is_Exception e"
  using handler_loop_post [of w c "()" "()"] assms
  by (simp add: loop_post_def)

section \<open>Decimal rendering\<close>

text \<open>Reading back what \<open>str_nat\<close> writes gives the number: distinct counts give distinct
  bodies.\<close>

lemma digit_char_value: "d < 10 \<Longrightarrow> of_char (digit_char d) = 48 + d"
proof -
  assume "d < 10"
  then consider "d = 0" | "d = 1" | "d = 2" | "d = 3" | "d = 4" | "d = 5" | "d = 6" | "d = 7"
    | "d = 8" | "d = 9"
    by atomize_elim arith
  then show ?thesis
    by cases (simp_all add: digit_char_def)
qed

lemma digits_value_append:
  "digits_value acc (s @ [ch]) = 10 * digits_value acc s + (of_char ch - 48)"
  by (induction s arbitrary: acc) simp_all

lemma digits_value_str_nat: "digits_value 0 (str_nat n) = n"
proof (induction n rule: str_nat.induct)
  case (1 n)
  show ?case
  proof (cases "n < 10")
    case True
    then show ?thesis
      by (simp add: str_nat.simps [of n] digit_char_value)
  next
    case False
    have "n mod 10 < 10" by simp
    then have "of_char (digit_char (n mod 10)) - 48 = n mod 10"
      by (simp add: digit_char_value)
    then show ?thesis
      using False 1 by (simp add: str_nat.simps [of n] digits_value_append)
  qed
qed

lemma str_nat_inj: "str_nat m = str_nat n \<Longrightarrow> m = n"
  by (metis digits_value_str_nat)

lemma released_body_inj:
  assumes "0 \<le> m" and "0 \<le> n" and "released_body m = released_body n"
  shows "m = n"
proof -
  have "str_nat (nat m) = str_nat (nat n)"
    using assms by (simp add: released_body_def str_int_def)
  then have "nat m = nat n"
    by (rule str_nat_inj)
  with assms(1,2) show ?thesis by simp
qed

section \<open>Evaluating the example runs\<close>

lemma str_int_0: "str_int 0 = ''0''"
  by (simp add: str_int_def str_nat.simps digit_char_def)

lemma str_int_1: "str_int 1 = ''1''"
  by (simp add: str_int_def str_nat.simps digit_char_def)

lemma released_body_0: "released_body 0 = ''Released 0 unassociated EIP(s).''"
  by (simp add: released_body_def str_int_0)

lemma released_body_1: "released_body 1 = ''Released 1 unassociated EIP(s).''"
  by (simp add: released_body_def str_int_1)

lemma stub_release_failures_only:
  "release_failures_only (stub_ec2 listing outcome) \<longleftrightarrow> (\<forall>a e. outcome a = Some e \<longrightarrow> is_Exception e)"
  by (simp add: release_failures_only_def stub_ec2_def)

lemma all_succeed_failures_only: "release_failures_only (stub_ec2 listing all_succeed)"
  by (simp add: stub_release_failures_only all_succeed_def)

lemma c_fails_failures_only: "release_failures_only (stub_ec2 listing c_fails)"
  by (simp add: stub_release_failures_only c_fails_def)

lemma run_a_b:
  "lambda_handler (stub_ec2 ([eip_a, eip_b], None) all_succeed) () () () =
     (Inr \<lparr>statusCode = 200, body = ''Released 1 unassociated EIP(s).''\<rparr>,
      \<lparr>released_count = 1,
       stdout = [''Releasing unassociated EIP: 5.6.7.8 (eip-b)''],
       release_calls = [(eip_b, None)],
       events = [Printed ''Releasing unassociated EIP: 5.6.7.8 (eip-b)'', Release_call eip_b None],
       world = ()\<rparr>)"
  by (simp add: lambda_handler_def stub_ec2_def initial_frame_def eip_a_def eip_b_def
      all_succeed_def releasing_line_def released_body_1)

lemma run_c_d_fails:
  "lambda_handler (stub_ec2 ([eip_c, eip_d], None) c_fails) () () () =
     (Inr \<lparr>statusCode = 200, body = ''Released 1 unassociated EIP(s).''\<rparr>,
      \<lparr>released_count = 1,
       stdout = [''Releasing unassociated EIP: 9.9.9.3 (eip-c)'',
                 ''Error releasing EIP eip-c: AuthFailure'',
                 ''Releasing unassociated EIP: 9.9.9.4 (eip-d)''],
       release_calls = [(eip_c, Some (Exc True ''AuthFailure'')), (eip_d, None)],
       events = [Printed ''Releasing unassociated EIP: 9.9.9.3 (eip-c)'',
                 Release_call eip_c (Some (Exc True ''AuthFailure'')),
                 Printed ''Error releasing EIP eip-c: AuthFailure'',
                 Printed ''Releasing unassociated EIP: 9.9.9.4 (eip-d)'',
                 Release_call eip_d None],
       world = ()\<rparr>)"
  by (simp add: lambda_handler_def stub_ec2_def initial_frame_def eip_c_def eip_d_def
      c_fails_def releasing_line_def error_line_def released_body_1)

lemma run_c_d_interrupted:
  "lambda_handler (stub_ec2 ([eip_c, eip_d], None) c_interrupted) () () () =
     (Inl (Exc False ''KeyboardInterrupt''),
      \<lparr>released_count = 0,
       stdout = [''Releasing unassociated EIP: 9.9.9.3 (eip-c)''],
       release_calls = [(eip_c, Some (Exc False ''KeyboardInterrupt''))],
       events = [Printed ''Releasing unassociated EIP: 9.9.9.3 (eip-c)'',
                 Release_call eip_c (Some (Exc False ''KeyboardInterrupt''))],
       world = ()\<rparr>)"
  by (simp add: lambda_handler_def stub_ec2_def initial_frame_def eip_c_def eip_d_def
      c_interrupted_def releasing_line_def)

lemma run_d_c_interrupted:
  "lambda_handler (stub_ec2 ([eip_d, eip_c], None) c_interrupted) () () () =
     (Inl (Exc False ''KeyboardInterrupt''),
      \<lparr>released_count = 1,
       stdout = [''Releasing unassociated EIP: 9.9.9.4 (eip-d)'',
                 ''Releasing unassociated EIP: 9.9.9.3 (eip-c)''],
       release_calls = [(eip_d, None), (eip_c, Some (Exc False ''KeyboardInterrupt''))],
       events = [Printed ''Releasing unassociated EIP: 9.9.9.4 (eip-d)'',
                 Release_call eip_d None,
                 Printed ''Releasing unassociated EIP: 9.9.9.3 (eip-c)'',
                 Release_call eip_c (Some (Exc False ''KeyboardInterrupt''))],
       world = ()\<rparr>)"
  by (simp add: lambda_handler_def stub_ec2_def initial_frame_def eip_c_def eip_d_def
      c_interrupted_def releasing_line_def)

section \<open>Properties of the handler\<close>

text \<open>
  C7. When the iteration over \<^verbatim>\<open>vpc_addresses.all()\<close> yields no address and ends
  normally, the handler makes no release call, prints nothing, and returns exactly
  \<^verbatim>\<open>{'statusCode': 200, 'body': 'Released 0 unassociated EIP(s).'}\<close>.
\<close>

theorem empty_scope_returns_zero:
  assumes "vpc_addresses_all c w = ([], None)"
  shows "lambda_handler c ev ctx w =
           (Inr \<lparr>statusCode = 200, body = ''Released 0 unassociated EIP(s).''\<rparr>,
            initial_frame w)
       \<and> release_calls (snd (lambda_handler c ev ctx w)) = []"
  using assms by (simp add: lambda_handler_def initial_frame_def released_body_0)

theorem empty_scope_returns_zero_witness:
  "vpc_addresses_all (stub_ec2 ([], None) all_succeed) () = ([], None)
   \<and> lambda_handler (stub_ec2 ([], None) all_succeed) () () () =
       (Inr \<lparr>statusCode = 200, body = ''Released 0 unassociated EIP(s).''\<rparr>, initial_frame ())
   \<and> release_calls (snd (lambda_handler (stub_ec2 ([], None) all_succeed) () () ())) = []"
proof -
  have h: "vpc_addresses_all (stub_ec2 ([], None) all_succeed) () = ([], None)"
    by (simp add: stub_ec2_def)
  show ?thesis
    using h empty_scope_returns_zero [OF h, of "()" "()"] by (simp add: initial_frame_def)
qed

text \<open>
  C1. Whenever the handler returns, the body is \<^verbatim>\<open>Released {N} unassociated EIP(s).\<close>
  for \<open>N\<close> the number of release calls that returned without raising, and for no other count,
  whatever the number of calls made; and the handler does return when the iteration ends
  normally and release calls raise nothing but exceptions deriving from \<^verbatim>\<open>Exception\<close>.
  In the example run two calls are made and the body reports one.
\<close>

theorem returned_count_is_completed_calls:
  "(release_failures_only c \<and> snd (vpc_addresses_all c w) = None \<longrightarrow>
      (\<exists>resp. fst (lambda_handler c ev ctx w) = Inr resp))
   \<and> (\<forall>resp. fst (lambda_handler c ev ctx w) = Inr resp \<longrightarrow>
         body resp =
           released_body (int (length (completed (release_calls (snd (lambda_handler c ev ctx w))))))
       \<and> (\<forall>n. 0 \<le> n \<and> body resp = released_body n \<longrightarrow>
              n = int (length (completed (release_calls (snd (lambda_handler c ev ctx w)))))))"
proof -
  let ?n = "int (length (completed (release_calls (snd (lambda_handler c ev ctx w)))))"
  have returns: "\<exists>resp. fst (lambda_handler c ev ctx w) = Inr resp"
    if "release_failures_only c" and "snd (vpc_addresses_all c w) = None"
    using that handler_returns [of c w ev ctx] by simp
  have count: "body resp = released_body ?n"
    if "fst (lambda_handler c ev ctx w) = Inr resp" for resp
  proof -
    have "body resp = released_body (released_count (snd (lambda_handler c ev ctx w)))"
      using that handler_returned [of c ev ctx w resp] by simp
    then show ?thesis
      by (simp only: handler_count)
  qed
  have only: "n = ?n"
    if "fst (lambda_handler c ev ctx w) = Inr resp" and "0 \<le> n" and "body resp = released_body n"
    for resp n
    using count [OF that(1)] that(2,3) released_body_inj [of n ?n] by simp
  show ?thesis
    using returns count only by blast
qed

theorem returned_count_is_completed_calls_witness:
  "release_failures_only (stub_ec2 ([eip_c, eip_d], None) c_fails)
   \<and> snd (vpc_addresses_all (stub_ec2 ([eip_c, eip_d], None) c_fails) ()) = None
   \<and> fst (lambda_handler (stub_ec2 ([eip_c, eip_d], None) c_fails) () () ()) =
       Inr \<lparr>statusCode = 200, body = ''Released 1 unassociated EIP(s).''\<rparr>
   \<and> length (release_calls (snd (lambda_handler (stub_ec2 ([eip_c, eip_d], None) c_fails) () () ()))) = 2
   \<and> ''Released 1 unassociated EIP(s).'' =
       released_body (int (length (completed
         (release_calls (snd (lambda_handler (stub_ec2 ([eip_c, eip_d], None) c_fails) () () ()))))))"
proof -
  have h1: "release_failures_only (stub_ec2 ([eip_c, eip_d], None) c_fails)"
    by (rule c_fails_failures_only)
  have h2: "snd (vpc_addresses_all (stub_ec2 ([eip_c, eip_d], None) c_fails) ()) = None"
    by (simp add: stub_ec2_def)
  have h3: "fst (lambda_handler (stub_ec2 ([eip_c, eip_d], None) c_fails) () () ()) =
       Inr \<lparr>statusCode = 200, body = ''Released 1 unassociated EIP(s).''\<rparr>"
    by (simp add: run_c_d_fails)
  show ?thesis
    using h1 h2 h3
      returned_count_is_completed_calls [of "stub_ec2 ([eip_c, eip_d], None) c_fails" "()" "()" "()"]
    by (simp add: run_c_d_fails)
qed

text \<open>
  C3, as stated for every combination of release failures, fails: when one release call has
  returned and the next raises an exception that does not derive from \<^verbatim>\<open>Exception\<close>,
  the exception leaves the handler and no mapping is returned.
\<close>

theorem interrupt_after_partial_release_returns_no_mapping:
  "release_calls (snd (lambda_handler (stub_ec2 ([eip_d, eip_c], None) c_interrupted) () () ())) =
     [(eip_d, None), (eip_c, Some (Exc False ''KeyboardInterrupt''))]
   \<and> fst (lambda_handler (stub_ec2 ([eip_d, eip_c], None) c_interrupted) () () ()) =
       Inl (Exc False ''KeyboardInterrupt'')"
  by (simp add: run_d_c_interrupted)

text \<open>
  C3, as the code has it. For every sequence of addresses that the iteration yields before
  ending normally, and every combination of release failures deriving from
  \<^verbatim>\<open>Exception\<close>, the handler returns the mapping with \<^verbatim>\<open>statusCode\<close> 200 and body
  \<^verbatim>\<open>Released {N} unassociated EIP(s).\<close> for some \<open>N \<ge> 0\<close>.
\<close>

theorem handler_reports_200:
  assumes "release_failures_only c" and "vpc_addresses_all c w = (eips, None)"
  shows "\<exists>n. 0 \<le> n \<and>
           fst (lambda_handler c ev ctx w) = Inr \<lparr>statusCode = 200, body = released_body n\<rparr>"
proof -
  let ?n = "int (length (completed (release_calls (snd (lambda_handler c ev ctx w)))))"
  have "fst (lambda_handler c ev ctx w) = Inr \<lparr>statusCode = 200, body = released_body ?n\<rparr>"
    using handler_returns [OF assms(1), of w ev ctx] assms(2) by (simp add: handler_count)
  moreover have "0 \<le> ?n" by simp
  ultimately show ?thesis by blast
qed

theorem handler_reports_200_witness:
  "release_failures_only (stub_ec2 ([eip_c, eip_d], None) c_fails)
   \<and> vpc_addresses_all (stub_ec2 ([eip_c, eip_d], None) c_fails) () = ([eip_c, eip_d], None)
   \<and> (\<exists>n. 0 \<le> n \<and> fst (lambda_handler (stub_ec2 ([eip_c, eip_d], None) c_fails) () () ()) =
         Inr \<lparr>statusCode = 200, body = released_body n\<rparr>)"
proof -
  have h1: "release_failures_only (stub_ec2 ([eip_c, eip_d], None) c_fails)"
    by (rule c_fails_failures_only)
  have h2: "vpc_addresses_all (stub_ec2 ([eip_c, eip_d], None) c_fails) () = ([eip_c, eip_d], None)"
    by (simp add: stub_ec2_def)
  show ?thesis
    using h1 h2 handler_reports_200 [OF h1 h2, of "()" "()"] by simp
qed

text \<open>
  C4. An address whose \<^verbatim>\<open>instance_id\<close> is present is never passed to a release call, at
  any point of any run.
\<close>

theorem associated_never_released:
  assumes "instance_id a \<noteq> None"
  shows "a \<notin> fst ` set (release_calls (snd (lambda_handler c ev ctx w)))"
proof
  assume "a \<in> fst ` set (release_calls (snd (lambda_handler c ev ctx w)))"
  then have "a \<in> set (map fst (release_calls (snd (lambda_handler c ev ctx w))))"
    by simp
  then have "a \<in> set (unassociated (fst (vpc_addresses_all c w)))"
    using handler_calls_prefix [of c ev ctx w] set_mono_prefix by blast
  then have "instance_id a = None"
    by (simp add: unassociated_def)
  with assms show False by simp
qed

theorem associated_never_released_witness:
  "instance_id eip_a \<noteq> None
   \<and> eip_a \<in> set (fst (vpc_addresses_all (stub_ec2 ([eip_a, eip_b], None) all_succeed) ()))
   \<and> eip_a \<notin> fst ` set (release_calls (snd (lambda_handler (stub_ec2 ([eip_a, eip_b], None) all_succeed) () () ())))"
proof -
  have h: "instance_id eip_a \<noteq> None"
    by (simp add: eip_a_def)
  show ?thesis
    using h associated_never_released [OF h, of "stub_ec2 ([eip_a, eip_b], None) all_succeed" "()" "()" "()"]
    by (simp add: stub_ec2_def)
qed

text \<open>Counting the calls made for one allocation identifier.\<close>

lemma calls_for_id:
  "length (filter (\<lambda>call. allocation_id (fst call) = i) calls) =
     length (filter (\<lambda>a. allocation_id a = i) (map fst calls))"
  by (induction calls) auto

lemma one_of_distinct_ids:
  assumes "distinct (map allocation_id eips)" and "a \<in> set eips" and "instance_id a = None"
  shows "length (filter (\<lambda>b. allocation_id b = allocation_id a) (unassociated eips)) = 1"
  using assms
proof (induction eips)
  case Nil
  then show ?case by simp
next
  case (Cons b eips)
  show ?case
  proof (cases "b = a")
    case True
    have "filter (\<lambda>b. allocation_id b = allocation_id a) (unassociated eips) = []"
    proof (rule ccontr)
      assume "filter (\<lambda>b. allocation_id b = allocation_id a) (unassociated eips) \<noteq> []"
      then obtain x where x: "x \<in> set eips" "allocation_id x = allocation_id a"
        by (auto simp add: unassociated_def filter_empty_conv)
      from x(1) have "allocation_id x \<in> allocation_id ` set eips"
        by (rule imageI)
      with x(2) have "allocation_id a \<in> set (map allocation_id eips)"
        by simp
      with Cons.prems(1) True show False by simp
    qed
    with True Cons.prems(3) show ?thesis
      by (simp add: unassociated_def)
  next
    case False
    then have "a \<in> set eips" using Cons.prems(2) by simp
    moreover have "allocation_id b \<noteq> allocation_id a"
      using Cons.prems(1) \<open>a \<in> set eips\<close> by auto
    ultimately show ?thesis
      using Cons.IH Cons.prems by (simp add: unassociated_def)
  qed
qed

text \<open>
  C5, as stated for every pass, fails: when the release of the first of two unassociated
  addresses raises an exception that does not derive from \<^verbatim>\<open>Exception\<close>, the pass ends
  there and no release call is made for the second.
\<close>

theorem interrupted_pass_skips_allocation:
  "unassociated (fst (vpc_addresses_all (stub_ec2 ([eip_c, eip_d], None) c_interrupted) ())) =
     [eip_c, eip_d]
   \<and> map fst (release_calls
         (snd (lambda_handler (stub_ec2 ([eip_c, eip_d], None) c_interrupted) () () ()))) = [eip_c]"
proof -
  have "unassociated (fst (vpc_addresses_all (stub_ec2 ([eip_c, eip_d], None) c_interrupted) ())) =
     [eip_c, eip_d]"
    by (simp add: unassociated_def stub_ec2_def eip_c_def eip_d_def)
  then show ?thesis
    by (simp add: run_c_d_interrupted)
qed

text \<open>
  C5, as the code has it. In a pass in which release calls raise nothing but exceptions
  deriving from \<^verbatim>\<open>Exception\<close>, the release calls are exactly the unassociated addresses
  of the listing, in order, one call for each; with allocation identifiers unique in the
  listing, exactly one call is made for the identifier of every unassociated address.
\<close>

theorem each_unassociated_released_once:
  assumes "release_failures_only c"
  shows "map fst (release_calls (snd (lambda_handler c ev ctx w))) =
           unassociated (fst (vpc_addresses_all c w))
       \<and> (distinct (map allocation_id (fst (vpc_addresses_all c w))) \<longrightarrow>
            (\<forall>a \<in> set (fst (vpc_addresses_all c w)). instance_id a = None \<longrightarrow>
               length (filter (\<lambda>call. allocation_id (fst call) = allocation_id a)
                         (release_calls (snd (lambda_handler c ev ctx w)))) = 1))"
proof -
  have calls: "map fst (release_calls (snd (lambda_handler c ev ctx w))) =
           unassociated (fst (vpc_addresses_all c w))"
    using for_loop_completes [OF assms] by (rule handler_calls_all)
  show ?thesis
    using calls one_of_distinct_ids [of "fst (vpc_addresses_all c w)"]
    by (simp add: calls_for_id)
qed

theorem each_unassociated_released_once_witness:
  "release_failures_only (stub_ec2 ([eip_a, eip_c, eip_d], None) c_fails)
   \<and> distinct (map allocation_id (fst (vpc_addresses_all (stub_ec2 ([eip_a, eip_c, eip_d], None) c_fails) ())))
   \<and> eip_d \<in> set (fst (vpc_addresses_all (stub_ec2 ([eip_a, eip_c, eip_d], None) c_fails) ()))
   \<and> instance_id eip_d = None
   \<and> map fst (release_calls (snd (lambda_handler (stub_ec2 ([eip_a, eip_c, eip_d], None) c_fails) () () ()))) =
       [eip_c, eip_d]
   \<and> length (filter (\<lambda>call. allocation_id (fst call) = allocation_id eip_d)
        (release_calls (snd (lambda_handler (stub_ec2 ([eip_a, eip_c, eip_d], None) c_fails) () () ())))) = 1"
proof -
  have h: "release_failures_only (stub_ec2 ([eip_a, eip_c, eip_d], None) c_fails)"
    by (rule c_fails_failures_only)
  have l: "fst (vpc_addresses_all (stub_ec2 ([eip_a, eip_c, eip_d], None) c_fails) ()) = [eip_a, eip_c, eip_d]"
    by (simp add: stub_ec2_def)
  have d: "distinct (map allocation_id [eip_a, eip_c, eip_d])"
    by (simp add: eip_a_def eip_c_def eip_d_def)
  have u: "unassociated [eip_a, eip_c, eip_d] = [eip_c, eip_d]"
    by (simp add: unassociated_def eip_a_def eip_c_def eip_d_def)
  have i: "instance_id eip_d = None"
    by (simp add: eip_d_def)
  show ?thesis
    using h d i each_unassociated_released_once [OF h, of "()" "()" "()"]
    by (simp add: l u)
qed

text \<open>
  C2, as the code has it. The effects of a run are, release call by release call and in this
  order: the informational line naming the public address and the allocation identifier, then
  the release call, then the error line when the call raised an exception deriving from
  \<^verbatim>\<open>Exception\<close>; so the informational line is printed before the release call, whether
  or not the call then succeeds, and the lines printed are the log. The release calls are made
  on the unassociated addresses of the listing, in order: on all of them, or on all up to one
  whose release call raised an exception that does not derive from \<^verbatim>\<open>Exception\<close>. In
  the worked example the log holds the informational line and the error line for
  \<^verbatim>\<open>eip-c\<close> and the informational line for \<^verbatim>\<open>eip-d\<close>.
\<close>

theorem effects_in_order_per_call:
  "events (snd (lambda_handler c ev ctx w)) =
     concat (map call_events (release_calls (snd (lambda_handler c ev ctx w))))
   \<and> stdout (snd (lambda_handler c ev ctx w)) = prints_of (events (snd (lambda_handler c ev ctx w)))
   \<and> (map fst (release_calls (snd (lambda_handler c ev ctx w))) =
         unassociated (fst (vpc_addresses_all c w))
      \<or> release_calls (snd (lambda_handler c ev ctx w)) \<noteq> []
        \<and> prefix (map fst (release_calls (snd (lambda_handler c ev ctx w))))
             (unassociated (fst (vpc_addresses_all c w)))
        \<and> (\<exists>e. snd (last (release_calls (snd (lambda_handler c ev ctx w)))) = Some e
               \<and> \<not> is_Exception e))"
proof -
  let ?calls = "release_calls (snd (lambda_handler c ev ctx w))"
  let ?res = "for_loop c (fst (vpc_addresses_all c w)) (initial_frame w)"
  have ev: "events (snd (lambda_handler c ev ctx w)) = concat (map call_events ?calls)"
    by (rule handler_events)
  have out: "stdout (snd (lambda_handler c ev ctx w)) =
               prints_of (events (snd (lambda_handler c ev ctx w)))"
    by (simp only: ev prints_of_calls handler_stdout)
  have calls: "map fst ?calls = unassociated (fst (vpc_addresses_all c w))
      \<or> ?calls \<noteq> [] \<and> prefix (map fst ?calls) (unassociated (fst (vpc_addresses_all c w)))
        \<and> (\<exists>e. snd (last ?calls) = Some e \<and> \<not> is_Exception e)"
  proof (cases "fst ?res")
    case None
    then have "map fst ?calls = unassociated (fst (vpc_addresses_all c w))"
      by (rule handler_calls_all)
    then show ?thesis by simp
  next
    case (Some e)
    have "\<not> is_Exception e"
      using Some by (rule handler_cut_short_uncaught)
    moreover have "?calls \<noteq> []" "snd (last ?calls) = Some e"
      using handler_cut_short [OF Some, of ev ctx] by simp_all
    moreover have "prefix (map fst ?calls) (unassociated (fst (vpc_addresses_all c w)))"
      by (rule handler_calls_prefix)
    ultimately show ?thesis by blast
  qed
  show ?thesis
    using ev out calls by blast
qed

theorem effects_in_order_per_call_witness:
  "events (snd (lambda_handler (stub_ec2 ([eip_c, eip_d], None) c_fails) () () ())) =
     [Printed ''Releasing unassociated EIP: 9.9.9.3 (eip-c)'',
      Release_call eip_c (Some (Exc True ''AuthFailure'')),
      Printed ''Error releasing EIP eip-c: AuthFailure'',
      Printed ''Releasing unassociated EIP: 9.9.9.4 (eip-d)'',
      Release_call eip_d None]
   \<and> events (snd (lambda_handler (stub_ec2 ([eip_c, eip_d], None) c_fails) () () ())) =
       call_events (eip_c, Some (Exc True ''AuthFailure'')) @ call_events (eip_d, None)
   \<and> stdout (snd (lambda_handler (stub_ec2 ([eip_c, eip_d], None) c_fails) () () ())) =
       [''Releasing unassociated EIP: 9.9.9.3 (eip-c)'',
        ''Error releasing EIP eip-c: AuthFailure'',
        ''Releasing unassociated EIP: 9.9.9.4 (eip-d)'']
   \<and> map fst (release_calls (snd (lambda_handler (stub_ec2 ([eip_c, eip_d], None) c_fails) () () ()))) =
       unassociated (fst (vpc_addresses_all (stub_ec2 ([eip_c, eip_d], None) c_fails) ()))
   \<and> \<not> is_Exception (Exc False ''KeyboardInterrupt'')
   \<and> snd (last (release_calls
        (snd (lambda_handler (stub_ec2 ([eip_c, eip_d], None) c_interrupted) () () ())))) =
       Some (Exc False ''KeyboardInterrupt'')
   \<and> events (snd (lambda_handler (stub_ec2 ([eip_c, eip_d], None) c_interrupted) () () ())) =
       call_events (eip_c, Some (Exc False ''KeyboardInterrupt''))"
proof -
  have u: "unassociated (fst (vpc_addresses_all (stub_ec2 ([eip_c, eip_d], None) c_fails) ())) =
             [eip_c, eip_d]"
    by (simp add: unassociated_def stub_ec2_def eip_c_def eip_d_def)
  show ?thesis
    using u
      effects_in_order_per_call [of "stub_ec2 ([eip_c, eip_d], None) c_fails" "()" "()" "()"]
      effects_in_order_per_call [of "stub_ec2 ([eip_c, eip_d], None) c_interrupted" "()" "()" "()"]
    by (simp add: run_c_d_fails run_c_d_interrupted)
qed

text \<open>
  C2, as stated, fails on the worked example: the release of \<^verbatim>\<open>eip-c\<close> raises, and the
  log still holds the informational line for \<^verbatim>\<open>eip-c\<close>, next to its error line.
\<close>

theorem info_record_despite_failed_release:
  "release_calls (snd (lambda_handler (stub_ec2 ([eip_c, eip_d], None) c_fails) () () ())) =
     [(eip_c, Some (Exc True ''AuthFailure'')), (eip_d, None)]
   \<and> stdout (snd (lambda_handler (stub_ec2 ([eip_c, eip_d], None) c_fails) () () ())) =
       [''Releasing unassociated EIP: 9.9.9.3 (eip-c)'',
        ''Error releasing EIP eip-c: AuthFailure'',
        ''Releasing unassociated EIP: 9.9.9.4 (eip-d)'']
   \<and> releasing_line eip_c = ''Releasing unassociated EIP: 9.9.9.3 (eip-c)''"
proof -
  have "releasing_line eip_c = ''Releasing unassociated EIP: 9.9.9.3 (eip-c)''"
    by (simp add: releasing_line_def eip_c_def)
  then show ?thesis
    by (simp add: run_c_d_fails)
qed

text \<open>
  C6, as stated for a failure of any exception type, fails: when the release of the first of
  two unassociated addresses raises an exception that does not derive from \<^verbatim>\<open>Exception\<close>,
  the \<^verbatim>\<open>except Exception\<close> clause does not catch it; no error line is printed, the second
  release call is not made, and the exception leaves the handler instead of a mapping with
  status code 200.
\<close>

theorem non_Exception_failure_aborts:
  "unassociated [eip_c, eip_d] = [eip_c, eip_d]
   \<and> fst (release (stub_ec2 ([eip_c, eip_d], None) c_interrupted) eip_c ()) =
       Some (Exc False ''KeyboardInterrupt'')
   \<and> lambda_handler (stub_ec2 ([eip_c, eip_d], None) c_interrupted) () () () =
     (Inl (Exc False ''KeyboardInterrupt''),
      \<lparr>released_count = 0,
       stdout = [''Releasing unassociated EIP: 9.9.9.3 (eip-c)''],
       release_calls = [(eip_c, Some (Exc False ''KeyboardInterrupt''))],
       events = [Printed ''Releasing unassociated EIP: 9.9.9.3 (eip-c)'',
                 Release_call eip_c (Some (Exc False ''KeyboardInterrupt''))],
       world = ()\<rparr>)"
proof -
  have "unassociated [eip_c, eip_d] = [eip_c, eip_d]"
    by (simp add: unassociated_def eip_c_def eip_d_def)
  moreover have "fst (release (stub_ec2 ([eip_c, eip_d], None) c_interrupted) eip_c ()) =
       Some (Exc False ''KeyboardInterrupt'')"
    by (simp add: stub_ec2_def c_interrupted_def eip_c_def)
  ultimately show ?thesis
    by (simp add: run_c_d_interrupted)
qed

text \<open>The error line of a caught failure is on the log.\<close>

lemma error_line_logged:
  assumes "k < length calls" and "calls ! k = (a, Some e)" and "is_Exception e"
  shows "error_line a e \<in> set (concat (map call_log calls))"
proof -
  have "(a, Some e) \<in> set calls"
    using assms(1,2) nth_mem by fastforce
  moreover have "error_line a e \<in> set (call_log (a, Some e))"
    using assms(3) by simp
  ultimately show ?thesis
    unfolding set_concat set_map by blast
qed

text \<open>An uncaught failure of a release call is the last thing the run does.\<close>

lemma uncaught_call_is_last:
  assumes k: "k < length (release_calls (snd (lambda_handler c ev ctx w)))"
    and r: "snd (release_calls (snd (lambda_handler c ev ctx w)) ! k) = Some e"
    and ex: "\<not> is_Exception e"
  shows "Suc k = length (release_calls (snd (lambda_handler c ev ctx w)))"
    and "fst (lambda_handler c ev ctx w) = Inl e"
    and "last (events (snd (lambda_handler c ev ctx w))) =
           Release_call (fst (release_calls (snd (lambda_handler c ev ctx w)) ! k)) (Some e)"
proof -
  let ?calls = "release_calls (snd (lambda_handler c ev ctx w))"
  let ?res = "for_loop c (fst (vpc_addresses_all c w)) (initial_frame w)"
  have mem: "?calls ! k \<in> set ?calls"
    using k by simp
  have unhandled: "\<not> handled (snd (?calls ! k))"
    using r ex by simp
  obtain e' where e': "fst ?res = Some e'"
    using handler_all_handled [of c w ev ctx] mem unhandled by (cases "fst ?res") auto
  have cut: "?calls \<noteq> []" "snd (last ?calls) = Some e'"
    "\<forall>call \<in> set (butlast ?calls). handled (snd call)"
    using handler_cut_short [OF e', of ev ctx] by simp_all
  show len: "Suc k = length ?calls"
  proof (rule ccontr)
    assume "Suc k \<noteq> length ?calls"
    with k have short: "k < length (butlast ?calls)"
      by simp
    then have "butlast ?calls ! k \<in> set (butlast ?calls)"
      by (rule nth_mem)
    moreover have "butlast ?calls ! k = ?calls ! k"
      using short by (simp add: nth_butlast)
    ultimately show False
      using cut(3) unhandled by auto
  qed
  have lst: "last ?calls = ?calls ! k"
    using len cut(1) by (simp add: last_conv_nth flip: len)
  with cut(2) r have "e' = e"
    by simp
  with e' show "fst (lambda_handler c ev ctx w) = Inl e"
    by (simp add: lambda_handler_unfold)
  have "?calls ! k = (fst (?calls ! k), Some e)"
    using r by (simp add: prod_eq_iff)
  with lst have "last ?calls = (fst (?calls ! k), Some e)"
    by simp
  then obtain pre where pre: "?calls = pre @ [(fst (?calls ! k), Some e)]"
    using cut(1) by (metis append_butlast_last_id)
  have "events (snd (lambda_handler c ev ctx w)) =
          concat (map call_events pre) @ call_events (fst (?calls ! k), Some e)"
    unfolding handler_events by (subst pre) simp
  then show "last (events (snd (lambda_handler c ev ctx w))) =
           Release_call (fst (?calls ! k)) (Some e)"
    using ex by simp
qed

text \<open>
  C6, as the code has it. The effects of a run follow its release calls in order: for each
  call the informational line, the call itself, and the error line of a caught failure. If
  the \<open>k\<close>-th release call of a run raises an exception deriving from \<^verbatim>\<open>Exception\<close>, the
  error line naming the allocation identifier and the failure detail is printed, and the
  release call for the next unassociated address, if there is one, is made. If it raises an
  exception that does not derive from \<^verbatim>\<open>Exception\<close>, it is the last release call and the
  last effect of the run, and that exception leaves the handler. When release calls raise
  nothing but exceptions deriving from \<^verbatim>\<open>Exception\<close>, every unassociated address of the
  listing gets its release call, and, the listing having ended normally, the handler returns
  status code 200.
\<close>

theorem release_failure_isolation:
  "events (snd (lambda_handler c ev ctx w)) =
     concat (map call_events (release_calls (snd (lambda_handler c ev ctx w))))
   \<and> (\<forall>k e. k < length (release_calls (snd (lambda_handler c ev ctx w)))
         \<and> snd (release_calls (snd (lambda_handler c ev ctx w)) ! k) = Some e \<and> is_Exception e \<longrightarrow>
       error_line (fst (release_calls (snd (lambda_handler c ev ctx w)) ! k)) e
         \<in> set (stdout (snd (lambda_handler c ev ctx w)))
     \<and> (Suc k < length (unassociated (fst (vpc_addresses_all c w))) \<longrightarrow>
          Suc k < length (release_calls (snd (lambda_handler c ev ctx w)))
        \<and> fst (release_calls (snd (lambda_handler c ev ctx w)) ! Suc k) =
            unassociated (fst (vpc_addresses_all c w)) ! Suc k))
   \<and> (\<forall>k e. k < length (release_calls (snd (lambda_handler c ev ctx w)))
         \<and> snd (release_calls (snd (lambda_handler c ev ctx w)) ! k) = Some e \<and> \<not> is_Exception e \<longrightarrow>
       Suc k = length (release_calls (snd (lambda_handler c ev ctx w)))
     \<and> fst (lambda_handler c ev ctx w) = Inl e
     \<and> last (events (snd (lambda_handler c ev ctx w))) =
         Release_call (fst (release_calls (snd (lambda_handler c ev ctx w)) ! k)) (Some e))
   \<and> (release_failures_only c \<longrightarrow>
        map fst (release_calls (snd (lambda_handler c ev ctx w))) =
          unassociated (fst (vpc_addresses_all c w))
      \<and> (snd (vpc_addresses_all c w) = None \<longrightarrow>
           (\<exists>resp. fst (lambda_handler c ev ctx w) = Inr resp \<and> statusCode resp = 200)))"
proof -
  let ?calls = "release_calls (snd (lambda_handler c ev ctx w))"
  let ?eips = "fst (vpc_addresses_all c w)"
  let ?res = "for_loop c ?eips (initial_frame w)"
  have post: "loop_post (initial_frame w) ?eips ?res ?calls"
    by (rule handler_loop_post)
  have pre: "prefix (map fst ?calls) (unassociated ?eips)"
    by (rule handler_calls_prefix)
  have order: "events (snd (lambda_handler c ev ctx w)) = concat (map call_events ?calls)"
    by (rule handler_events)
  have logged: "error_line (fst (?calls ! k)) e \<in> set (stdout (snd (lambda_handler c ev ctx w)))"
    if k: "k < length ?calls" and r: "snd (?calls ! k) = Some e" and ex: "is_Exception e" for k e
  proof -
    have "?calls ! k = (fst (?calls ! k), Some e)"
      using r by (simp add: prod_eq_iff)
    then show ?thesis
      using error_line_logged [OF k _ ex] by (simp only: handler_stdout)
  qed
  have next_call: "Suc k < length ?calls"
    if k: "k < length ?calls" and r: "snd (?calls ! k) = Some e" and ex: "is_Exception e"
      and more: "Suc k < length (unassociated ?eips)" for k e
  proof (cases "fst ?res")
    case None
    then have "map fst ?calls = unassociated ?eips"
      using post by (simp add: loop_post_def)
    then have "length ?calls = length (unassociated ?eips)"
      by (metis length_map)
    with more show ?thesis by simp
  next
    case (Some e')
    then have l: "\<not> is_Exception e'" "?calls \<noteq> []" "snd (last ?calls) = Some e'"
      using post by (simp_all add: loop_post_def)
    have "k \<noteq> length ?calls - 1"
    proof
      assume "k = length ?calls - 1"
      then have "?calls ! k = last ?calls"
        using l(2) by (simp add: last_conv_nth)
      with r l(3) ex l(1) show False by simp
    qed
    with k show ?thesis by arith
  qed
  have next_address: "fst (?calls ! Suc k) = unassociated ?eips ! Suc k"
    if "Suc k < length ?calls" for k
  proof -
    have "map fst ?calls ! Suc k = unassociated ?eips ! Suc k"
      using pre that by (auto simp add: prefix_def nth_append)
    with that show ?thesis by simp
  qed
  have aborts: "Suc k = length ?calls \<and> fst (lambda_handler c ev ctx w) = Inl e
      \<and> last (events (snd (lambda_handler c ev ctx w))) = Release_call (fst (?calls ! k)) (Some e)"
    if "k < length ?calls" and "snd (?calls ! k) = Some e" and "\<not> is_Exception e" for k e
    using uncaught_call_is_last [OF that] by simp
  have all_calls: "map fst ?calls = unassociated ?eips" if "release_failures_only c"
    using for_loop_completes [OF that] by (rule handler_calls_all)
  have status: "\<exists>resp. fst (lambda_handler c ev ctx w) = Inr resp \<and> statusCode resp = 200"
    if "release_failures_only c" and "snd (vpc_addresses_all c w) = None"
    using handler_returns [OF that(1), of w ev ctx] that(2) by simp
  show ?thesis
    using order logged next_call next_address aborts all_calls status by blast
qed

theorem release_failure_isolation_witness:
  "(0::nat) < length (release_calls (snd (lambda_handler (stub_ec2 ([eip_c, eip_d], None) c_fails) () () ())))
   \<and> snd (release_calls (snd (lambda_handler (stub_ec2 ([eip_c, eip_d], None) c_fails) () () ())) ! 0) =
       Some (Exc True ''AuthFailure'')
   \<and> is_Exception (Exc True ''AuthFailure'')
   \<and> Suc 0 < length (unassociated (fst (vpc_addresses_all (stub_ec2 ([eip_c, eip_d], None) c_fails) ())))
   \<and> release_failures_only (stub_ec2 ([eip_c, eip_d], None) c_fails)
   \<and> snd (vpc_addresses_all (stub_ec2 ([eip_c, eip_d], None) c_fails) ()) = None
   \<and> error_line eip_c (Exc True ''AuthFailure'')
       \<in> set (stdout (snd (lambda_handler (stub_ec2 ([eip_c, eip_d], None) c_fails) () () ())))
   \<and> fst (release_calls (snd (lambda_handler (stub_ec2 ([eip_c, eip_d], None) c_fails) () () ())) ! Suc 0) = eip_d
   \<and> (\<exists>resp. fst (lambda_handler (stub_ec2 ([eip_c, eip_d], None) c_fails) () () ()) = Inr resp
        \<and> statusCode resp = 200)
   \<and> (1::nat) < length (release_calls (snd (lambda_handler (stub_ec2 ([eip_d, eip_c], None) c_interrupted) () () ())))
   \<and> snd (release_calls (snd (lambda_handler (stub_ec2 ([eip_d, eip_c], None) c_interrupted) () () ())) ! 1) =
       Some (Exc False ''KeyboardInterrupt'')
   \<and> \<not> is_Exception (Exc False ''KeyboardInterrupt'')
   \<and> length (release_calls (snd (lambda_handler (stub_ec2 ([eip_d, eip_c], None) c_interrupted) () () ()))) = 2
   \<and> fst (lambda_handler (stub_ec2 ([eip_d, eip_c], None) c_interrupted) () () ()) =
       Inl (Exc False ''KeyboardInterrupt'')
   \<and> last (events (snd (lambda_handler (stub_ec2 ([eip_d, eip_c], None) c_interrupted) () () ()))) =
       Release_call eip_c (Some (Exc False ''KeyboardInterrupt''))"
proof -
  let ?c1 = "stub_ec2 ([eip_c, eip_d], None) c_fails"
  let ?c2 = "stub_ec2 ([eip_d, eip_c], None) c_interrupted"
  have h: "release_failures_only ?c1"
    by (rule c_fails_failures_only)
  have u: "unassociated (fst (vpc_addresses_all ?c1 ())) = [eip_c, eip_d]"
    by (simp add: unassociated_def stub_ec2_def eip_c_def eip_d_def)
  have s: "snd (vpc_addresses_all ?c1 ()) = None"
    by (simp add: stub_ec2_def)
  have calls1: "release_calls (snd (lambda_handler ?c1 () () ())) =
                  [(eip_c, Some (Exc True ''AuthFailure'')), (eip_d, None)]"
    by (simp add: run_c_d_fails)
  have calls2: "release_calls (snd (lambda_handler ?c2 () () ())) =
                  [(eip_d, None), (eip_c, Some (Exc False ''KeyboardInterrupt''))]"
    by (simp add: run_d_c_interrupted)
  have caught: "error_line (fst (release_calls (snd (lambda_handler ?c1 () () ())) ! 0))
                   (Exc True ''AuthFailure'')
                  \<in> set (stdout (snd (lambda_handler ?c1 () () ())))
     \<and> (Suc 0 < length (unassociated (fst (vpc_addresses_all ?c1 ()))) \<longrightarrow>
          Suc 0 < length (release_calls (snd (lambda_handler ?c1 () () ())))
        \<and> fst (release_calls (snd (lambda_handler ?c1 () () ())) ! Suc 0) =
            unassociated (fst (vpc_addresses_all ?c1 ())) ! Suc 0)"
    by (rule release_failure_isolation [of ?c1 "()" "()" "()",
          THEN conjunct2, THEN conjunct1, rule_format])
       (simp add: calls1)
  have status: "\<exists>resp. fst (lambda_handler ?c1 () () ()) = Inr resp \<and> statusCode resp = 200"
    using release_failure_isolation [of ?c1 "()" "()" "()",
          THEN conjunct2, THEN conjunct2, THEN conjunct2] h s
    by simp
  have uncaught: "Suc 1 = length (release_calls (snd (lambda_handler ?c2 () () ())))
     \<and> fst (lambda_handler ?c2 () () ()) = Inl (Exc False ''KeyboardInterrupt'')
     \<and> last (events (snd (lambda_handler ?c2 () () ()))) =
         Release_call (fst (release_calls (snd (lambda_handler ?c2 () () ())) ! 1))
           (Some (Exc False ''KeyboardInterrupt''))"
    by (rule release_failure_isolation [of ?c2 "()" "()" "()",
          THEN conjunct2, THEN conjunct2, THEN conjunct1, rule_format])
       (simp add: calls2)
  show ?thesis
    using h s caught status uncaught
    by (simp add: calls1 calls2 u)
qed

text \<open>
  C9. When the iteration over \<^verbatim>\<open>vpc_addresses.all()\<close> raises, the handler returns no
  mapping: nothing in the handler catches the exception. It is this exception that leaves the
  invocation when the loop has come as far as the failing listing call, and when the listing
  fails before yielding any address, nothing is released or printed.
\<close>

theorem listing_failure_propagates:
  assumes "snd (vpc_addresses_all c w) = Some e"
  shows "(\<forall>resp. fst (lambda_handler c ev ctx w) \<noteq> Inr resp)
       \<and> (release_failures_only c \<longrightarrow> fst (lambda_handler c ev ctx w) = Inl e)
       \<and> (fst (vpc_addresses_all c w) = [] \<longrightarrow>
            lambda_handler c ev ctx w = (Inl e, initial_frame w))"
proof (intro conjI allI impI)
  fix resp
  show "fst (lambda_handler c ev ctx w) \<noteq> Inr resp"
    using assms by (simp add: lambda_handler_unfold split: option.splits)
next
  assume "release_failures_only c"
  then have "fst (for_loop c (fst (vpc_addresses_all c w)) (initial_frame w)) = None"
    by (rule for_loop_completes)
  with assms show "fst (lambda_handler c ev ctx w) = Inl e"
    by (simp add: lambda_handler_unfold)
next
  assume "fst (vpc_addresses_all c w) = []"
  with assms show "lambda_handler c ev ctx w = (Inl e, initial_frame w)"
    by (simp add: lambda_handler_unfold)
qed

theorem listing_failure_propagates_witness:
  "snd (vpc_addresses_all (stub_ec2 ([], Some throttled) all_succeed) ()) = Some throttled
   \<and> release_failures_only (stub_ec2 ([], Some throttled) all_succeed)
   \<and> fst (vpc_addresses_all (stub_ec2 ([], Some throttled) all_succeed) ()) = []
   \<and> (\<forall>resp. fst (lambda_handler (stub_ec2 ([], Some throttled) all_succeed) () () ()) \<noteq> Inr resp)
   \<and> lambda_handler (stub_ec2 ([], Some throttled) all_succeed) () () () =
       (Inl throttled, initial_frame ())"
proof -
  have h: "snd (vpc_addresses_all (stub_ec2 ([], Some throttled) all_succeed) ()) = Some throttled"
    by (simp add: stub_ec2_def)
  have f: "release_failures_only (stub_ec2 ([], Some throttled) all_succeed)"
    by (rule all_succeed_failures_only)
  have l: "fst (vpc_addresses_all (stub_ec2 ([], Some throttled) all_succeed) ()) = []"
    by (simp add: stub_ec2_def)
  show ?thesis
    using h f l listing_failure_propagates [OF h, of "()" "()"] by simp
qed

text \<open>The loop uses the resource through its release operation only, and passes over the
  addresses bound to an instance.\<close>

lemma for_loop_release_only:
  assumes "release c' = release c"
  shows "for_loop c' eips s = for_loop c eips s"
  using assms by (induction eips arbitrary: s) (simp_all add: Let_def split: prod.splits option.splits)

lemma for_loop_unassociated:
  "for_loop c (unassociated eips) s = for_loop c eips s"
proof (induction eips arbitrary: s)
  case Nil
  show ?case by (simp add: unassociated_def)
next
  case (Cons a eips)
  show ?case
  proof (cases "instance_id a = None")
    case False
    then have "unassociated (a # eips) = unassociated eips"
      by (auto simp add: unassociated_def)
    moreover have "for_loop c (a # eips) s = for_loop c eips s"
      using False by (rule for_loop_skip)
    ultimately show ?thesis
      by (simp only: Cons.IH)
  next
    case True
    then have u: "unassociated (a # eips) = a # unassociated eips"
      by (simp add: unassociated_def)
    show ?thesis
      unfolding u using True Cons.IH
      by (simp add: Let_def split: prod.splits option.splits)
  qed
qed

text \<open>
  C10. Two listings with the same unassociated addresses, in the same order, give the same
  run: the same result, the same log, the same release calls, the same counter and the same
  service state, whatever associated addresses either listing holds. Every release call of a
  run is on an unassociated address, and the log and the counter are functions of the release
  calls and their outcomes.
\<close>

theorem associated_addresses_are_frame:
  assumes "release c' = release c"
    and "unassociated (fst (vpc_addresses_all c' w)) = unassociated (fst (vpc_addresses_all c w))"
    and "snd (vpc_addresses_all c' w) = snd (vpc_addresses_all c w)"
  shows "lambda_handler c' ev ctx w = lambda_handler c ev ctx w
       \<and> (\<forall>call \<in> set (release_calls (snd (lambda_handler c ev ctx w))). instance_id (fst call) = None)
       \<and> stdout (snd (lambda_handler c ev ctx w)) =
           concat (map call_log (release_calls (snd (lambda_handler c ev ctx w))))
       \<and> released_count (snd (lambda_handler c ev ctx w)) =
           int (length (completed (release_calls (snd (lambda_handler c ev ctx w)))))"
proof (intro conjI ballI)
  have "for_loop c' (fst (vpc_addresses_all c' w)) (initial_frame w) =
          for_loop c (unassociated (fst (vpc_addresses_all c' w))) (initial_frame w)"
    by (simp only: for_loop_release_only [OF assms(1)] for_loop_unassociated)
  also have "\<dots> = for_loop c (fst (vpc_addresses_all c w)) (initial_frame w)"
    by (simp only: assms(2) for_loop_unassociated)
  finally show "lambda_handler c' ev ctx w = lambda_handler c ev ctx w"
    by (simp add: lambda_handler_unfold assms(3) split: option.splits)
next
  fix call
  assume "call \<in> set (release_calls (snd (lambda_handler c ev ctx w)))"
  then have "fst call \<in> set (map fst (release_calls (snd (lambda_handler c ev ctx w))))"
    by simp
  then have "fst call \<in> set (unassociated (fst (vpc_addresses_all c w)))"
    using handler_calls_prefix [of c ev ctx w] set_mono_prefix by blast
  then show "instance_id (fst call) = None"
    by (simp add: unassociated_def)
next
  show "stdout (snd (lambda_handler c ev ctx w)) =
           concat (map call_log (release_calls (snd (lambda_handler c ev ctx w))))"
    by (rule handler_stdout)
next
  show "released_count (snd (lambda_handler c ev ctx w)) =
           int (length (completed (release_calls (snd (lambda_handler c ev ctx w)))))"
    by (rule handler_count)
qed

theorem associated_addresses_are_frame_witness:
  "release (stub_ec2 ([eip_b], None) all_succeed) = release (stub_ec2 ([eip_a, eip_b], None) all_succeed)
   \<and> unassociated (fst (vpc_addresses_all (stub_ec2 ([eip_b], None) all_succeed) ())) =
       unassociated (fst (vpc_addresses_all (stub_ec2 ([eip_a, eip_b], None) all_succeed) ()))
   \<and> snd (vpc_addresses_all (stub_ec2 ([eip_b], None) all_succeed) ()) =
       snd (vpc_addresses_all (stub_ec2 ([eip_a, eip_b], None) all_succeed) ())
   \<and> lambda_handler (stub_ec2 ([eip_b], None) all_succeed) () () () =
       lambda_handler (stub_ec2 ([eip_a, eip_b], None) all_succeed) () () ()
   \<and> release_calls (snd (lambda_handler (stub_ec2 ([eip_a, eip_b], None) all_succeed) () () ())) =
       [(eip_b, None)]"
proof -
  have r: "release (stub_ec2 ([eip_b], None) all_succeed) =
             release (stub_ec2 ([eip_a, eip_b], None) all_succeed)"
    by (simp add: stub_ec2_def)
  have u: "unassociated (fst (vpc_addresses_all (stub_ec2 ([eip_b], None) all_succeed) ())) =
       unassociated (fst (vpc_addresses_all (stub_ec2 ([eip_a, eip_b], None) all_succeed) ()))"
    by (simp add: stub_ec2_def unassociated_def eip_a_def eip_b_def)
  have s: "snd (vpc_addresses_all (stub_ec2 ([eip_b], None) all_succeed) ()) =
       snd (vpc_addresses_all (stub_ec2 ([eip_a, eip_b], None) all_succeed) ())"
    by (simp add: stub_ec2_def)
  show ?thesis
    using r u s associated_addresses_are_frame [OF r u s, of "()" "()"]
    by (simp add: run_a_b)
qed

section \<open>Two runs in succession\<close>

lemma run_flaky_first:
  "lambda_handler pool_ec2 () () flaky_pool =
     (Inr \<lparr>statusCode = 200, body = ''Released 0 unassociated EIP(s).''\<rparr>,
      \<lparr>released_count = 0,
       stdout = [''Releasing unassociated EIP: 9.9.9.3 (eip-c)'',
                 ''Error releasing EIP eip-c: RequestLimitExceeded''],
       release_calls = [(eip_c, Some throttled)],
       events = [Printed ''Releasing unassociated EIP: 9.9.9.3 (eip-c)'',
                 Release_call eip_c (Some throttled),
                 Printed ''Error releasing EIP eip-c: RequestLimitExceeded''],
       world = \<lparr>pool = [eip_a, eip_c], faults = []\<rparr>\<rparr>)"
  by (simp add: lambda_handler_def pool_ec2_def pool_release_def flaky_pool_def initial_frame_def
      eip_a_def eip_c_def releasing_line_def error_line_def released_body_0 throttled_def)

lemma run_flaky_second:
  "lambda_handler pool_ec2 () () \<lparr>pool = [eip_a, eip_c], faults = []\<rparr> =
     (Inr \<lparr>statusCode = 200, body = ''Released 1 unassociated EIP(s).''\<rparr>,
      \<lparr>released_count = 1,
       stdout = [''Releasing unassociated EIP: 9.9.9.3 (eip-c)''],
       release_calls = [(eip_c, None)],
       events = [Printed ''Releasing unassociated EIP: 9.9.9.3 (eip-c)'', Release_call eip_c None],
       world = \<lparr>pool = [eip_a], faults = []\<rparr>\<rparr>)"
  by (simp add: lambda_handler_def pool_ec2_def pool_release_def initial_frame_def
      eip_a_def eip_c_def releasing_line_def released_body_1)

lemma run_calm_first:
  "lambda_handler pool_ec2 () () calm_pool =
     (Inr \<lparr>statusCode = 200, body = ''Released 1 unassociated EIP(s).''\<rparr>,
      \<lparr>released_count = 1,
       stdout = [''Releasing unassociated EIP: 5.6.7.8 (eip-b)''],
       release_calls = [(eip_b, None)],
       events = [Printed ''Releasing unassociated EIP: 5.6.7.8 (eip-b)'', Release_call eip_b None],
       world = \<lparr>pool = [eip_a], faults = []\<rparr>\<rparr>)"
  by (simp add: lambda_handler_def pool_ec2_def pool_release_def calm_pool_def initial_frame_def
      eip_a_def eip_b_def releasing_line_def released_body_1)

text \<open>
  C8, as stated, fails: over a pool with the unassociated allocation \<^verbatim>\<open>eip-c\<close> whose
  release is throttled once, the first run returns count 0 and leaves the pool as it was; the
  second run, with no change in between, releases \<^verbatim>\<open>eip-c\<close> and returns count 1.
\<close>

theorem second_run_releases_after_failed_first:
  "fst (lambda_handler pool_ec2 () () flaky_pool) =
     Inr \<lparr>statusCode = 200, body = ''Released 0 unassociated EIP(s).''\<rparr>
   \<and> fst (vpc_addresses_all pool_ec2 (world (snd (lambda_handler pool_ec2 () () flaky_pool)))) =
       fst (vpc_addresses_all pool_ec2 flaky_pool)
   \<and> lambda_handler pool_ec2 () () (world (snd (lambda_handler pool_ec2 () () flaky_pool))) =
     (Inr \<lparr>statusCode = 200, body = ''Released 1 unassociated EIP(s).''\<rparr>,
      \<lparr>released_count = 1,
       stdout = [''Releasing unassociated EIP: 9.9.9.3 (eip-c)''],
       release_calls = [(eip_c, None)],
       events = [Printed ''Releasing unassociated EIP: 9.9.9.3 (eip-c)'', Release_call eip_c None],
       world = \<lparr>pool = [eip_a], faults = []\<rparr>\<rparr>)"
proof -
  have "fst (vpc_addresses_all pool_ec2 \<lparr>pool = [eip_a, eip_c], faults = []\<rparr>) =
          fst (vpc_addresses_all pool_ec2 flaky_pool)"
    by (simp add: pool_ec2_def flaky_pool_def)
  then show ?thesis
    by (simp add: run_flaky_first run_flaky_second)
qed

text \<open>A run that returns a mapping, or that makes no release call, was not cut short in
  its loop.\<close>

lemma handler_not_aborted:
  assumes "fst (lambda_handler c ev ctx w) = Inr resp"
  shows "fst (for_loop c (fst (vpc_addresses_all c w)) (initial_frame w)) = None"
  using assms by (simp add: lambda_handler_unfold split: option.splits)

lemma handler_aborts_after_call:
  assumes "release_calls (snd (lambda_handler c ev ctx w)) = []"
  shows "fst (for_loop c (fst (vpc_addresses_all c w)) (initial_frame w)) = None"
  using handler_loop_post [of w c ev ctx] assms
  by (cases "fst (for_loop c (fst (vpc_addresses_all c w)) (initial_frame w))")
     (simp_all add: loop_post_def)

text \<open>
  C8, as the code has it. Let the first run return, let no allocation be unassociated in the
  second enumeration that was not unassociated in the first (no external association changes),
  and let every allocation the first run released successfully be absent from, or associated
  in, the second enumeration. Then the second run attempts to release only allocations whose
  release call failed in the first run; if no release call of the first run failed, the
  second run makes no release call and, its enumeration ending normally, returns count 0.
\<close>

theorem second_run_retries_failures_only:
  assumes returned: "fst (lambda_handler c ev ctx w) = Inr resp"
    and unchanged: "set (unassociated (fst (vpc_addresses_all c (world (snd (lambda_handler c ev ctx w))))))
                      \<subseteq> set (unassociated (fst (vpc_addresses_all c w)))"
    and gone: "\<forall>call \<in> set (release_calls (snd (lambda_handler c ev ctx w))).
                 snd call = None \<longrightarrow>
                 fst call \<notin> set (unassociated
                   (fst (vpc_addresses_all c (world (snd (lambda_handler c ev ctx w))))))"
  shows "(\<forall>call \<in> set (release_calls
               (snd (lambda_handler c ev' ctx' (world (snd (lambda_handler c ev ctx w)))))).
            \<exists>e. (fst call, Some e) \<in> set (release_calls (snd (lambda_handler c ev ctx w))))
       \<and> ((\<forall>call \<in> set (release_calls (snd (lambda_handler c ev ctx w))). snd call = None) \<longrightarrow>
            release_calls
              (snd (lambda_handler c ev' ctx' (world (snd (lambda_handler c ev ctx w))))) = []
          \<and> (snd (vpc_addresses_all c (world (snd (lambda_handler c ev ctx w)))) = None \<longrightarrow>
               fst (lambda_handler c ev' ctx' (world (snd (lambda_handler c ev ctx w)))) =
                 Inr \<lparr>statusCode = 200, body = ''Released 0 unassociated EIP(s).''\<rparr>))"
proof -
  let ?calls1 = "release_calls (snd (lambda_handler c ev ctx w))"
  let ?w1 = "world (snd (lambda_handler c ev ctx w))"
  let ?calls2 = "release_calls (snd (lambda_handler c ev' ctx' ?w1))"
  have all1: "map fst ?calls1 = unassociated (fst (vpc_addresses_all c w))"
    using handler_not_aborted [OF returned] by (rule handler_calls_all)
  have retry: "\<exists>e. (fst call, Some e) \<in> set ?calls1" if "call \<in> set ?calls2" for call
  proof -
    from that have "fst call \<in> set (map fst ?calls2)"
      by simp
    then have in2: "fst call \<in> set (unassociated (fst (vpc_addresses_all c ?w1)))"
      using handler_calls_prefix [of c ev' ctx' ?w1] set_mono_prefix by blast
    with unchanged have "fst call \<in> set (map fst ?calls1)"
      unfolding all1 by blast
    then obtain r where r: "(fst call, r) \<in> set ?calls1"
      by auto
    have "r \<noteq> None"
      using gone r in2 by force
    with r show ?thesis
      by auto
  qed
  have none: "?calls2 = []" if "\<forall>call \<in> set ?calls1. snd call = None"
  proof (rule ccontr)
    assume "?calls2 \<noteq> []"
    then obtain call where "call \<in> set ?calls2"
      by (meson last_in_set)
    then obtain e where "(fst call, Some e) \<in> set ?calls1"
      using retry by blast
    with that show False by force
  qed
  have zero: "fst (lambda_handler c ev' ctx' ?w1) =
                Inr \<lparr>statusCode = 200, body = ''Released 0 unassociated EIP(s).''\<rparr>"
    if "?calls2 = []" and "snd (vpc_addresses_all c ?w1) = None"
  proof -
    have "released_count (snd (lambda_handler c ev' ctx' ?w1)) = 0"
      using that(1) by (simp add: handler_count completed_def)
    moreover have "fst (for_loop c (fst (vpc_addresses_all c ?w1)) (initial_frame ?w1)) = None"
      using that(1) by (rule handler_aborts_after_call)
    ultimately show ?thesis
      using that(2) by (simp add: lambda_handler_unfold released_body_0)
  qed
  show ?thesis
    using retry none zero by blast
qed

theorem second_run_retries_failures_only_witness:
  "fst (lambda_handler pool_ec2 () () calm_pool) =
      Inr \<lparr>statusCode = 200, body = ''Released 1 unassociated EIP(s).''\<rparr>
   \<and> set (unassociated (fst (vpc_addresses_all pool_ec2 (world (snd (lambda_handler pool_ec2 () () calm_pool))))))
        \<subseteq> set (unassociated (fst (vpc_addresses_all pool_ec2 calm_pool)))
   \<and> release_calls (snd (lambda_handler pool_ec2 () () calm_pool)) = [(eip_b, None)]
   \<and> eip_b \<notin> set (unassociated
          (fst (vpc_addresses_all pool_ec2 (world (snd (lambda_handler pool_ec2 () () calm_pool))))))
   \<and> snd (vpc_addresses_all pool_ec2 (world (snd (lambda_handler pool_ec2 () () calm_pool)))) = None
   \<and> release_calls
        (snd (lambda_handler pool_ec2 () () (world (snd (lambda_handler pool_ec2 () () calm_pool))))) = []
   \<and> fst (lambda_handler pool_ec2 () () (world (snd (lambda_handler pool_ec2 () () calm_pool)))) =
        Inr \<lparr>statusCode = 200, body = ''Released 0 unassociated EIP(s).''\<rparr>"
proof -
  have u: "unassociated (fst (vpc_addresses_all pool_ec2 \<lparr>pool = [eip_a], faults = []\<rparr>)) = []"
    by (simp add: unassociated_def pool_ec2_def eip_a_def)
  have r: "fst (lambda_handler pool_ec2 () () calm_pool) =
      Inr \<lparr>statusCode = 200, body = ''Released 1 unassociated EIP(s).''\<rparr>"
    by (simp add: run_calm_first)
  have s: "set (unassociated (fst (vpc_addresses_all pool_ec2
                  (world (snd (lambda_handler pool_ec2 () () calm_pool))))))
        \<subseteq> set (unassociated (fst (vpc_addresses_all pool_ec2 calm_pool)))"
    by (simp add: run_calm_first u)
  have g: "\<forall>call \<in> set (release_calls (snd (lambda_handler pool_ec2 () () calm_pool))).
                 snd call = None \<longrightarrow>
                 fst call \<notin> set (unassociated
                   (fst (vpc_addresses_all pool_ec2 (world (snd (lambda_handler pool_ec2 () () calm_pool))))))"
    by (simp add: run_calm_first u)
  have n: "snd (vpc_addresses_all pool_ec2 \<lparr>pool = [eip_a], faults = []\<rparr>) = None"
    by (simp add: pool_ec2_def)
  show ?thesis
    using r s n second_run_retries_failures_only [OF r s g, of "()" "()"]
    by (simp add: run_calm_first u)
qed


text \<open>The modelled pool meets the two premises on the service in every state: a run adds no
  allocation to the pool, and what it released successfully is in the pool no longer.\<close>

lemma pool_release_cases:
  obtains (released) "fst (pool_release a w) = None"
      "pool (snd (pool_release a w)) = filter (\<lambda>b. allocation_id b \<noteq> allocation_id a) (pool w)"
    | (failed) e where "fst (pool_release a w) = Some e" "pool (snd (pool_release a w)) = pool w"
  by (cases "faults w"; cases "hd (faults w)") (auto simp add: pool_release_def)

lemma after_pool_release:
  assumes "released_are_gone s"
  shows "released_are_gone (after_call s a (fst (pool_release a (world s))) (snd (pool_release a (world s))))
       \<and> set (pool (snd (pool_release a (world s)))) \<subseteq> set (pool (world s))"
proof (cases a "world s" rule: pool_release_cases)
  case released
  then show ?thesis
    using assms by (auto simp add: released_are_gone_def after_call_fields)
next
  case (failed e)
  then show ?thesis
    using assms by (auto simp add: released_are_gone_def after_call_fields)
qed

lemma pool_loop:
  assumes "released_are_gone s"
  shows "released_are_gone (snd (for_loop pool_ec2 eips s))
       \<and> set (pool (world (snd (for_loop pool_ec2 eips s)))) \<subseteq> set (pool (world s))"
  using assms
proof (induction eips arbitrary: s)
  case Nil
  then show ?case by simp
next
  case (Cons a eips)
  show ?case
  proof (cases "instance_id a = None")
    case False
    show ?thesis
      unfolding for_loop_skip [OF False] using Cons.prems by (rule Cons.IH)
  next
    case True
    let ?r = "fst (pool_release a (world s))"
    let ?w = "snd (pool_release a (world s))"
    let ?s = "after_call s a ?r ?w"
    have rel: "release pool_ec2 a (world s) = (?r, ?w)"
      by (simp add: pool_ec2_def)
    have step: "released_are_gone ?s" "set (pool ?w) \<subseteq> set (pool (world s))"
      using after_pool_release [OF Cons.prems, of a] by simp_all
    have w: "world ?s = ?w"
      by (simp add: after_call_fields)
    show ?thesis
    proof (cases "case ?r of None \<Rightarrow> True | Some e \<Rightarrow> is_Exception e")
      case caught: True
      then have "for_loop pool_ec2 (a # eips) s = for_loop pool_ec2 eips ?s"
        using True rel for_loop_released [of a pool_ec2 s ?w eips]
          for_loop_caught [of a pool_ec2 s _ ?w eips]
        by (cases ?r) auto
      then show ?thesis
        using Cons.IH [OF step(1)] step(2) w by auto
    next
      case False
      then obtain e where e: "?r = Some e" "\<not> is_Exception e"
        by (cases ?r) auto
      have "for_loop pool_ec2 (a # eips) s = (Some e, after_call s a (Some e) ?w)"
        using True rel e for_loop_uncaught [of a pool_ec2 s e ?w eips] by simp
      then show ?thesis
        using step w e(1) by simp
    qed
  qed
qed

lemma pool_runs_in_succession:
  "set (unassociated (fst (vpc_addresses_all pool_ec2 (world (snd (lambda_handler pool_ec2 ev ctx w))))))
     \<subseteq> set (unassociated (fst (vpc_addresses_all pool_ec2 w)))"
  "\<forall>call \<in> set (release_calls (snd (lambda_handler pool_ec2 ev ctx w))).
      snd call = None \<longrightarrow>
      fst call \<notin> set (unassociated
        (fst (vpc_addresses_all pool_ec2 (world (snd (lambda_handler pool_ec2 ev ctx w))))))"
proof -
  have init: "released_are_gone (initial_frame w)"
    by (simp add: released_are_gone_def initial_frame_def)
  have l: "fst (vpc_addresses_all pool_ec2 v) = pool v" for v
    by (simp add: pool_ec2_def)
  have w0: "world (initial_frame w) = w"
    by (simp add: initial_frame_def)
  from pool_loop [OF init, of "pool w"]
  have inv: "released_are_gone (snd (lambda_handler pool_ec2 ev ctx w))"
    and sub: "set (pool (world (snd (lambda_handler pool_ec2 ev ctx w)))) \<subseteq> set (pool w)"
    by (simp_all add: snd_lambda_handler l w0)
  show "set (unassociated (fst (vpc_addresses_all pool_ec2 (world (snd (lambda_handler pool_ec2 ev ctx w))))))
     \<subseteq> set (unassociated (fst (vpc_addresses_all pool_ec2 w)))"
    using sub by (auto simp add: l unassociated_def)
  show "\<forall>call \<in> set (release_calls (snd (lambda_handler pool_ec2 ev ctx w))).
      snd call = None \<longrightarrow>
      fst call \<notin> set (unassociated
        (fst (vpc_addresses_all pool_ec2 (world (snd (lambda_handler pool_ec2 ev ctx w))))))"
    using inv by (auto simp add: l unassociated_def released_are_gone_def)
qed

end
